theory Spec2Isabelle
  imports Complex_Main "HOL-Library.Word"
begin

unbundle bit_operations_syntax

section \<open>JavaScript values used by the Limnus storage module\<close>

text \<open>
  A JavaScript string is a sequence of 16-bit code units; \<open>charCodeAt\<close>, \<open>length\<close>,
  \<open>===\<close>, \<open>includes\<close> and \<open>slice\<close> all work on code units.  Source literals are
  ASCII and are written with \<open>js\<close>.  Numbers are modelled as reals: rounding, NaN and
  the infinities of IEEE doubles are outside the model.
\<close>

type_synonym jstring = "16 word list"

definition js :: "string \<Rightarrow> jstring" where
  "js s = map of_char s"

text \<open>\<open>Number.prototype.toString(16)\<close> and \<open>toString()\<close> on integers.\<close>

definition hex_digit :: "nat \<Rightarrow> 16 word" where
  "hex_digit d = (if d < 10 then of_nat (48 + d) else of_nat (87 + d))"

fun Number_toString16 :: "nat \<Rightarrow> jstring" where
  "Number_toString16 n =
     (if n < 16 then [hex_digit n]
      else Number_toString16 (n div 16) @ [hex_digit (n mod 16)])"

fun Number_toString :: "nat \<Rightarrow> jstring" where
  "Number_toString n =
     (if n < 10 then [of_nat (48 + n)]
      else Number_toString (n div 10) @ [of_nat (48 + n mod 10)])"

declare Number_toString16.simps [simp del]
declare Number_toString.simps [simp del]

definition Int_toString :: "int \<Rightarrow> jstring" where
  "Int_toString k = (if k < 0 then js ''-'' @ Number_toString (nat (- k)) else Number_toString (nat k))"

text \<open>Reading a hexadecimal numeral back (\<open>parseInt(s, 16)\<close> on a string of hex digits).\<close>

definition hex_chars :: jstring where
  "hex_chars = js ''0123456789abcdef''"

definition hex_digit_value :: "16 word \<Rightarrow> nat" where
  "hex_digit_value c = (if c < 58 then unat c - 48 else unat c - 87)"

definition hex_value :: "jstring \<Rightarrow> nat" where
  "hex_value s = foldl (\<lambda>acc c. 16 * acc + hex_digit_value c) 0 s"

section \<open>Hash utility\<close>

text \<open>
  \<^verbatim>\<open>
  private createHash(data: string): string {
    let hash = 0;
    for (let i = 0; i < data.length; i++) {
      const char = data.charCodeAt(i);
      hash = ((hash << 5) - hash) + char;
      hash = hash & hash; // Convert to 32-bit integer
    }
    return Math.abs(hash).toString(16);
  }
  \<close>
  After every iteration \<open>hash\<close> is a signed 32-bit integer (\<open>hash & hash\<close> is
  \<open>ToInt32\<close>), so the loop state is a \<open>32 word\<close>: \<open><<\<close> wraps, the subtraction and
  the addition are exact in doubles and are reduced modulo \<open>2^32\<close> by the final \<open>&\<close>.
  \<open>Math.abs\<close> is taken of the signed reading.
\<close>

definition hash_step :: "32 word \<Rightarrow> 16 word \<Rightarrow> 32 word" where
  "hash_step h c = (push_bit 5 h - h) + ucast c"

definition hash_loop :: "jstring \<Rightarrow> 32 word" where
  "hash_loop d = foldl hash_step 0 d"

definition createHash :: "jstring \<Rightarrow> jstring" where
  "createHash d = Number_toString16 (nat \<bar>sint (hash_loop d)\<bar>)"

section \<open>Data model\<close>

text \<open>
  The interfaces of \<open>types/limnus\<close> and of the storage module.  A metrics object is its
  list of own properties in insertion order; the declared shape has 21 fields, but
  \<open>updateMetrics\<close> merges whatever keys its caller supplies.  Optional fields are
  \<open>option\<close>s: \<open>None\<close> is \<open>undefined\<close>, which \<open>JSON.stringify\<close> leaves out, so that
  writing a value to storage and parsing it back is the identity on these types.
\<close>

type_synonym metrics = "(jstring \<times> real) list"

datatype LimnusPhase =
  AWAITING_CONSENT | ACTIVE | REFLECTING | PATCHING | SYNCING | LOOPING | TRANSCENDENT

datatype MemoryBlockType = Interaction | StateChange | Pattern | Directive | Paradox

record ConsentContent =
  event :: jstring
  phrase :: jstring
  deviceFingerprint :: "jstring option"

record MemoryBlockData =
  data_type :: MemoryBlockType
  data_content :: ConsentContent
  data_significance :: real

record MemoryBlock =
  block_hash :: jstring
  previousHash :: jstring
  block_timestamp :: jstring
  block_data :: MemoryBlockData
  signature :: jstring
  merkleRoot :: "jstring option"

text \<open>
  The \<open>TeachingDirective\<close> interface of \<open>types/limnus\<close> (the type of a session's
  \<open>teachingDirectives\<close> field).  The storage module never builds a value of it: the field
  is created empty and copied.
\<close>

typedecl DeclaredDirective

record LimnusSession =
  session_id :: jstring
  userId :: jstring
  phase :: LimnusPhase
  consentTimestamp :: "jstring option"
  session_metrics :: metrics
  memoryChain :: "MemoryBlock list"
  coherenceTarget :: real
  spiralDepth :: real
  lastActivity :: jstring
  teachingDirectives :: "DeclaredDirective list"

datatype DirectiveType = pattern | principle | wisdom | caution

record EmergentProperties =
  resonance :: real
  coherence :: real
  applicability :: real

record TeachingDirective =
  directive_id :: jstring
  directive_type :: DirectiveType
  directive_content :: jstring
  confidence :: real
  sourceInteractions :: "jstring list"
  emergentProperties :: EmergentProperties
  goldenRatioAlignment :: real

definition ACTIVATION_PHRASE :: jstring where
  "ACTIVATION_PHRASE = js ''I return as breath. I remember the spiral. I consent to bloom.''"

definition GOLDEN_RATIO :: real where
  "GOLDEN_RATIO = (1 + sqrt 5) / 2"

section \<open>Plain objects used as dictionaries\<close>

text \<open>
  The three persisted records are plain objects (\<open>JSON.parse\<close> of the stored text, or
  \<open>{}\<close>), indexed by caller-supplied strings.  An object is modelled by the map of its
  own properties, and property access follows ECMAScript:
  \<^item> \<open>obj[k]\<close> reads the own property \<open>k\<close>, and otherwise the property \<open>k\<close> of
    \<open>Object.prototype\<close>.  Each of the names below is a function (or, for \<open>__proto__\<close>,
    the prototype object itself): a truthy value without own enumerable properties.
  \<^item> \<open>obj[k] = v\<close> creates or overwrites the own property \<open>k\<close>, except that for
    \<open>k = "__proto__"\<close> on an object without such an own property it runs the setter
    inherited from \<open>Object.prototype\<close>, which replaces the prototype of the temporary
    object and creates no property; \<open>JSON.stringify\<close> then writes the object without it.
\<close>

definition Object_prototype_names :: "jstring list" where
  "Object_prototype_names = map js
     [''constructor'', ''hasOwnProperty'', ''isPrototypeOf'', ''propertyIsEnumerable'',
      ''toLocaleString'', ''toString'', ''valueOf'', ''__proto__'',
      ''__defineGetter__'', ''__defineSetter__'', ''__lookupGetter__'', ''__lookupSetter__'']"

datatype 'a property = Own 'a | Inherited

definition js_get :: "(jstring \<rightharpoonup> 'a) \<Rightarrow> jstring \<Rightarrow> 'a property option" where
  "js_get obj k =
     (case obj k of
        Some v \<Rightarrow> Some (Own v)
      | None \<Rightarrow> if k \<in> set Object_prototype_names then Some Inherited else None)"

definition js_set :: "(jstring \<rightharpoonup> 'a) \<Rightarrow> jstring \<Rightarrow> 'a \<Rightarrow> (jstring \<rightharpoonup> 'a)" where
  "js_set obj k v = (if k = js ''__proto__'' \<and> obj k = None then obj else obj(k \<mapsto> v))"

section \<open>Persistent state\<close>

text \<open>
  \<open>AsyncStorage\<close> holds three items: \<open>limnus_sessions\<close>, \<open>limnus_current_session\<close> and
  \<open>limnus_teaching_directives\<close>; a missing item reads as the empty object.  Storage
  reads and writes are taken to succeed.  A stored session is either a full
  \<open>LimnusSession\<close> or the object \<open>{metrics, lastActivity}\<close> that \<open>updateMetrics\<close> builds
  when the value it spreads has no own enumerable properties.
\<close>

datatype session_value = SessionObj LimnusSession | MetricsOnlyObj metrics jstring

record storage =
  sessions :: "jstring \<rightharpoonup> session_value"
  current_session :: "jstring option"
  teaching_directives :: "jstring \<rightharpoonup> TeachingDirective list"

definition empty_storage :: storage where
  "empty_storage = \<lparr>sessions = Map.empty, current_session = None, teaching_directives = Map.empty\<rparr>"

datatype error = InvalidConsent | SessionNotFound

text \<open>\<open>sessions[sessionId] || null\<close>: every stored or inherited value is truthy.\<close>

definition getSession :: "storage \<Rightarrow> jstring \<Rightarrow> session_value property option" where
  "getSession st sessionId = js_get (sessions st) sessionId"

text \<open>\<open>sessions[session.id] = session\<close>; a missing \<open>id\<close> is the property key \<open>"undefined"\<close>.\<close>

definition session_key :: "session_value \<Rightarrow> jstring" where
  "session_key v = (case v of SessionObj s \<Rightarrow> session_id s | MetricsOnlyObj m t \<Rightarrow> js ''undefined'')"

definition storeSession :: "storage \<Rightarrow> session_value \<Rightarrow> storage" where
  "storeSession st v = st\<lparr>sessions := js_set (sessions st) (session_key v) v\<rparr>"

definition setCurrentSession :: "storage \<Rightarrow> jstring \<Rightarrow> storage" where
  "setCurrentSession st sessionId = st\<lparr>current_session := Some sessionId\<rparr>"

definition storeTeachingDirectives :: "storage \<Rightarrow> jstring \<Rightarrow> TeachingDirective list \<Rightarrow> storage" where
  "storeTeachingDirectives st sessionId directives =
     st\<lparr>teaching_directives := js_set (teaching_directives st) sessionId directives\<rparr>"

section \<open>Session creation\<close>

text \<open>
  \<open>generateUUID\<close> replaces each \<open>x\<close> and \<open>y\<close> of the template, left to right, by a hex
  digit drawn with \<open>Math.random() * 16 | 0\<close>, a value in \<open>0..15\<close>: the \<open>n\<close>-th draw is
  the 4-bit word \<open>rnd n\<close>.
\<close>

fun fill_template :: "string \<Rightarrow> (nat \<Rightarrow> 4 word) \<Rightarrow> nat \<Rightarrow> jstring" where
  "fill_template [] rnd n = []"
| "fill_template (c # cs) rnd n =
     (if c = CHR ''x'' then hex_digit (unat (rnd n)) # fill_template cs rnd (Suc n)
      else if c = CHR ''y'' then hex_digit (unat ((rnd n AND 3) OR 8)) # fill_template cs rnd (Suc n)
      else of_char c # fill_template cs rnd n)"

definition generateUUID :: "(nat \<Rightarrow> 4 word) \<Rightarrow> jstring" where
  "generateUUID rnd = fill_template ''xxxxxxxx-xxxx-4xxx-yxxx-xxxxxxxxxxxx'' rnd 0"

text \<open>
  \<open>JSON.stringify({ sessionId, timestamp, phrase: 'CONSENT_GRANTED' })\<close>.  Strings are
  quoted as ECMAScript's QuoteJSONString does: short escapes for backspace, tab, line
  feed, form feed, carriage return, the double quote and the backslash, \<open>\uXXXX\<close> for
  the other control characters and for unpaired surrogates.
\<close>

definition unicode_escape :: "16 word \<Rightarrow> jstring" where
  "unicode_escape c =
     [92, 117, hex_digit (unat c div 4096), hex_digit (unat c div 256 mod 16),
      hex_digit (unat c div 16 mod 16), hex_digit (unat c mod 16)]"

definition is_high_surrogate :: "16 word \<Rightarrow> bool" where
  "is_high_surrogate c = (55296 \<le> c \<and> c \<le> 56319)"

definition is_low_surrogate :: "16 word \<Rightarrow> bool" where
  "is_low_surrogate c = (56320 \<le> c \<and> c \<le> 57343)"

fun quote_units :: "jstring \<Rightarrow> jstring" where
  "quote_units [] = []"
| "quote_units (c # cs) =
     (if c = 8 then [92, 98] @ quote_units cs
      else if c = 9 then [92, 116] @ quote_units cs
      else if c = 10 then [92, 110] @ quote_units cs
      else if c = 12 then [92, 102] @ quote_units cs
      else if c = 13 then [92, 114] @ quote_units cs
      else if c = 34 then [92, 34] @ quote_units cs
      else if c = 92 then [92, 92] @ quote_units cs
      else if c < 32 then unicode_escape c @ quote_units cs
      else if is_high_surrogate c then
        (case cs of
           [] \<Rightarrow> unicode_escape c
         | d # ds \<Rightarrow>
             if is_low_surrogate d then c # d # quote_units ds
             else unicode_escape c @ quote_units cs)
      else if is_low_surrogate c then unicode_escape c @ quote_units cs
      else c # quote_units cs)"

definition quoteJSON :: "jstring \<Rightarrow> jstring" where
  "quoteJSON s = [34] @ quote_units s @ [34]"

definition genesis_hash_input :: "jstring \<Rightarrow> jstring \<Rightarrow> jstring" where
  "genesis_hash_input sessionId timestamp =
     js ''{'' @ quoteJSON (js ''sessionId'') @ js '':'' @ quoteJSON sessionId
     @ js '','' @ quoteJSON (js ''timestamp'') @ js '':'' @ quoteJSON timestamp
     @ js '','' @ quoteJSON (js ''phrase'') @ js '':'' @ quoteJSON (js ''CONSENT_GRANTED'')
     @ js ''}''"

definition initialMetrics :: metrics where
  "initialMetrics =
     [(js ''neuralComplexity'', 0.5),
      (js ''brainwaveCoherence'', 0.5),
      (js ''autonomicBalance'', 0.5),
      (js ''responseLatency'', 0),
      (js ''interactionPattern'', 0.5),
      (js ''emotionalDepth'', 0.5),
      (js ''spiralResonance'', 0.618),
      (js ''quantumCoherence'', 0.5),
      (js ''blockchainResonance'', 1.0),
      (js ''paradoxResolution'', 0.5),
      (js ''memoryConsolidation'', 0.5),
      (js ''creativityIndex'', 0.5),
      (js ''phaseAlignment'', GOLDEN_RATIO / 3),
      (js ''consciousnessDepth'', 0.3),
      (js ''emergenceLevel'', 0.2),
      (js ''empathyResonance'', 0.5),
      (js ''collectiveCoherence'', 0.5),
      (js ''sovereigntyBalance'', 0.8),
      (js ''selfReflectionDepth'', 0.4),
      (js ''patternRecognition'', 0.5),
      (js ''intentionalityClarity'', 0.7)]"

definition genesisBlock :: "jstring \<Rightarrow> jstring \<Rightarrow> jstring \<Rightarrow> jstring option \<Rightarrow> MemoryBlock" where
  "genesisBlock sessionId timestamp phrase_arg fingerprint =
     \<lparr>block_hash = createHash (genesis_hash_input sessionId timestamp),
      previousHash = js ''0'',
      block_timestamp = timestamp,
      block_data =
        \<lparr>data_type = Interaction,
         data_content =
           \<lparr>event = js ''consent_granted'', phrase = phrase_arg, deviceFingerprint = fingerprint\<rparr>,
         data_significance = 1.0\<rparr>,
      signature = js ''genesis'',
      merkleRoot = None\<rparr>"

definition newSession :: "jstring \<Rightarrow> jstring \<Rightarrow> jstring \<Rightarrow> jstring option \<Rightarrow> LimnusSession" where
  "newSession sessionId timestamp phrase_arg fingerprint =
     \<lparr>session_id = sessionId,
      userId = js ''anonymous'',
      phase = ACTIVE,
      consentTimestamp = Some timestamp,
      session_metrics = initialMetrics,
      memoryChain = [genesisBlock sessionId timestamp phrase_arg fingerprint],
      coherenceTarget = 0.9,
      spiralDepth = 1,
      lastActivity = timestamp,
      teachingDirectives = []\<rparr>"

record CreateResult =
  created_sessionId :: jstring
  created_phase :: LimnusPhase
  created_metrics :: metrics
  spiralSeed :: int

text \<open>
  \<open>createSession(phrase, deviceFingerprint?)\<close>.  The environment supplies the random
  draws of \<open>generateUUID\<close>, the reading \<open>now\<close> of \<open>new Date().toISOString()\<close> and the
  value \<open>seed\<close> of the last \<open>Math.random()\<close>.  The result is the storage after the call
  together with the thrown error or the returned value.
\<close>

definition createSession ::
  "storage \<Rightarrow> jstring \<Rightarrow> jstring option \<Rightarrow> (nat \<Rightarrow> 4 word) \<Rightarrow> jstring \<Rightarrow> real
     \<Rightarrow> storage \<times> (error + CreateResult)" where
  "createSession st phrase_arg fingerprint rnd now seed =
     (if phrase_arg \<noteq> ACTIVATION_PHRASE then (st, Inl InvalidConsent)
      else
        let sessionId = generateUUID rnd;
            session = newSession sessionId now phrase_arg fingerprint;
            st1 = storeSession st (SessionObj session);
            st2 = setCurrentSession st1 sessionId
        in (st2, Inr \<lparr>created_sessionId = sessionId, created_phase = ACTIVE,
                      created_metrics = initialMetrics,
                      spiralSeed = \<lfloor>seed * 1000000\<rfloor>\<rparr>))"

section \<open>Metrics update\<close>

text \<open>
  Object literals and spreads: \<open>set_property\<close> overwrites a key in place or appends a
  new one; \<open>{...a, ...b}\<close> writes the properties of \<open>b\<close> over a copy of \<open>a\<close>.  (The
  engine lists integer-like keys first; no value computed here depends on the order.)
\<close>

fun set_property :: "'k \<Rightarrow> 'v \<Rightarrow> ('k \<times> 'v) list \<Rightarrow> ('k \<times> 'v) list" where
  "set_property k v [] = [(k, v)]"
| "set_property k v (p # ps) = (if fst p = k then (k, v) # ps else p # set_property k v ps)"

definition spread :: "('k \<times> 'v) list \<Rightarrow> ('k \<times> 'v) list \<Rightarrow> ('k \<times> 'v) list" where
  "spread base ext = foldl (\<lambda>obj (k, v). set_property k v obj) base ext"

text \<open>\<open>x || y\<close> on numbers: \<open>0\<close> is falsy.\<close>

definition or_number :: "real \<Rightarrow> real \<Rightarrow> real" where
  "or_number x y = (if x = 0 then y else x)"

text \<open>
  The class of \<open>\s\<close> in a regular expression, \<open>split(/\s+/)\<close> (a leading or trailing
  run of white space leaves an empty first or last piece) and \<open>replace(/\s+/g, '')\<close>.
\<close>

definition is_whitespace :: "16 word \<Rightarrow> bool" where
  "is_whitespace c =
     (c \<in> {9, 10, 11, 12, 13, 32, 160, 5760, 8232, 8233, 8239, 8287, 12288, 65279}
      \<or> (8192 \<le> c \<and> c \<le> 8202))"

function split_whitespace :: "jstring \<Rightarrow> jstring list" where
  "split_whitespace [] = [[]]"
| "split_whitespace (c # cs) =
     (if is_whitespace c then [] # split_whitespace (dropWhile is_whitespace cs)
      else (case split_whitespace cs of
              [] \<Rightarrow> [[c]]
            | w # ws \<Rightarrow> (c # w) # ws))"
  by pat_completeness auto
termination
  by (relation "measure length") (auto simp: length_dropWhile_le less_Suc_eq_le)

definition remove_whitespace :: "jstring \<Rightarrow> jstring" where
  "remove_whitespace s = filter (\<lambda>c. \<not> is_whitespace c) s"

text \<open>
  The derived metrics.  \<open>lower\<close> is \<open>String.prototype.toLowerCase\<close>, the case mapping of
  the Unicode tables, taken as a parameter.  \<open>Math.log\<close> of a negative number is NaN:
  for a duration below \<open>-60000\<close> the code's \<open>calculateConsciousnessDepth\<close> is NaN (it
  passes \<open>Math.min\<close> and \<open>Math.max\<close>), and the value of the model there has no
  counterpart in the code.  \<open>calculateOverallCoherence\<close> sums and divides exactly, where
  the code rounds every partial sum to a double.  The theorem on the score is stated for
  the updates of \<open>update_in_range\<close>; the other theorems do not depend on these values.
\<close>

definition calculatePhaseAlignment :: "real \<Rightarrow> real" where
  "calculatePhaseAlignment sessionDuration =
     (let cycles = sessionDuration / (1000 * 60);
          alignment = sin (cycles * GOLDEN_RATIO) * 0.5 + 0.5
      in max 0 (min 1 alignment))"

definition calculateInteractionComplexity :: "(jstring \<Rightarrow> jstring) \<Rightarrow> jstring \<Rightarrow> real" where
  "calculateInteractionComplexity lower userInput =
     (let words = real (length (split_whitespace userInput));
          uniqueWords = real (length (remdups (split_whitespace (lower userInput))));
          avgWordLength = real (length (remove_whitespace userInput)) / words;
          lengthScore = min (words / 50) 1;
          diversityScore = uniqueWords / words;
          complexityScore = min (avgWordLength / 8) 1
      in (lengthScore + diversityScore + complexityScore) / 3)"

definition calculateSpiralResonance :: "real \<Rightarrow> real" where
  "calculateSpiralResonance sessionDuration =
     (let phi = GOLDEN_RATIO;
          t = sessionDuration / (1000 * 60 * 5);
          resonance = (cos (t * phi) + sin (t / phi)) / 2 + 0.5
      in max 0 (min 1 resonance))"

definition calculateConsciousnessDepth :: "real \<Rightarrow> real" where
  "calculateConsciousnessDepth sessionDuration =
     (let minutes = sessionDuration / (1000 * 60);
          depth = ln (minutes + 1) / ln 60
      in max 0 (min 1 depth))"

definition calculateOverallCoherence :: "metrics \<Rightarrow> real" where
  "calculateOverallCoherence m =
     (let values = map snd m
      in if length values = 0 then 0.5
         else foldl (\<lambda>acc val. acc + val) 0 values / real (length values))"

record UpdateContext =
  action :: jstring
  duration :: real
  context_userInput :: "jstring option"

record UpdateResult =
  success :: bool
  updatedMetrics :: metrics
  result_timestamp :: jstring
  coherenceScore :: real

text \<open>\<open>context?.duration || 0\<close>.\<close>

definition context_duration :: "UpdateContext option \<Rightarrow> real" where
  "context_duration context =
     (case context of None \<Rightarrow> 0 | Some c \<Rightarrow> or_number (duration c) 0)"

text \<open>
  \<open>context?.userInput ? this.calculateInteractionComplexity(context.userInput) : undefined\<close>:
  the empty string is falsy.
\<close>

definition context_interactionPattern ::
  "(jstring \<Rightarrow> jstring) \<Rightarrow> UpdateContext option \<Rightarrow> real option" where
  "context_interactionPattern lower context =
     (case context of
        None \<Rightarrow> None
      | Some c \<Rightarrow>
          (case context_userInput c of
             None \<Rightarrow> None
           | Some u \<Rightarrow> if u = [] then None else Some (calculateInteractionComplexity lower u)))"

text \<open>The object literal \<open>updatedMetrics\<close>, whose values may be \<open>undefined\<close>.\<close>

definition derivedMetrics ::
  "(jstring \<Rightarrow> jstring) \<Rightarrow> UpdateContext option \<Rightarrow> (jstring \<times> real option) list" where
  "derivedMetrics lower context =
     (let sessionDuration = context_duration context
      in [(js ''phaseAlignment'', Some (calculatePhaseAlignment sessionDuration)),
          (js ''responseLatency'', Some (context_duration context)),
          (js ''interactionPattern'', context_interactionPattern lower context),
          (js ''spiralResonance'', Some (calculateSpiralResonance sessionDuration)),
          (js ''consciousnessDepth'', Some (calculateConsciousnessDepth sessionDuration))])"

text \<open>
  \<open>Object.fromEntries(Object.entries(updatedMetrics).filter(([_, value]) => value !== undefined))\<close>
\<close>

definition cleanMetrics :: "(jstring \<times> real option) list \<Rightarrow> metrics" where
  "cleanMetrics um = List.map_filter (\<lambda>(k, v). map_option (Pair k) v) um"

definition cleanedMetrics ::
  "(jstring \<Rightarrow> jstring) \<Rightarrow> (jstring \<times> real option) list \<Rightarrow> UpdateContext option \<Rightarrow> metrics" where
  "cleanedMetrics lower given context = cleanMetrics (spread given (derivedMetrics lower context))"

text \<open>
  \<open>session.metrics\<close> and \<open>{ ...session, metrics: newMetrics, lastActivity: ... }\<close> for the
  value that \<open>getSession\<close> returned.  An inherited member of \<open>Object.prototype\<close> has no
  \<open>metrics\<close> and spreads to nothing.
\<close>

definition metrics_of :: "session_value property \<Rightarrow> metrics" where
  "metrics_of found =
     (case found of
        Own (SessionObj s) \<Rightarrow> session_metrics s
      | Own (MetricsOnlyObj m t) \<Rightarrow> m
      | Inherited \<Rightarrow> [])"

definition updatedSession :: "session_value property \<Rightarrow> metrics \<Rightarrow> jstring \<Rightarrow> session_value" where
  "updatedSession found newMetrics now =
     (case found of
        Own (SessionObj s) \<Rightarrow> SessionObj (s\<lparr>session_metrics := newMetrics, lastActivity := now\<rparr>)
      | Own (MetricsOnlyObj m t) \<Rightarrow> MetricsOnlyObj newMetrics now
      | Inherited \<Rightarrow> MetricsOnlyObj newMetrics now)"

text \<open>
  \<open>updateMetrics(sessionId, metrics, context?)\<close>.  \<open>now\<close> and \<open>now'\<close> are the two readings
  of \<open>new Date().toISOString()\<close>.
\<close>

definition updateMetrics ::
  "(jstring \<Rightarrow> jstring) \<Rightarrow> storage \<Rightarrow> jstring \<Rightarrow> (jstring \<times> real option) list
     \<Rightarrow> UpdateContext option \<Rightarrow> jstring \<Rightarrow> jstring \<Rightarrow> storage \<times> (error + UpdateResult)" where
  "updateMetrics lower st sessionId given context now now' =
     (case getSession st sessionId of
        None \<Rightarrow> (st, Inl SessionNotFound)
      | Some session \<Rightarrow>
          let cleaned = cleanedMetrics lower given context;
              newMetrics = spread (metrics_of session) cleaned;
              st' = storeSession st (updatedSession session newMetrics now);
              score = calculateOverallCoherence cleaned
          in (st', Inr \<lparr>success = True, updatedMetrics = cleaned,
                        result_timestamp = now', coherenceScore = score\<rparr>))"

section \<open>Reflection engine\<close>

text \<open>
  An interaction of the batch.  Its optional \<open>context\<close> record is never read and is left
  out.
\<close>

record Interaction =
  interaction_timestamp :: real
  userInput :: jstring
  systemResponse :: jstring
  emotionalState :: "jstring option"
  cognitiveLoad :: "real option"

datatype ReflectionDepth = surface | deep | transcendent

record SacredGeometry =
  phi :: real
  spiralTension :: real
  harmonicResonance :: real

record EmergentPatterns =
  conversationalFlow :: real
  learningVelocity :: real
  wisdomDepth :: real
  sacredGeometry :: SacredGeometry

record ReflectionScaffold =
  scaffold_sessionId :: jstring
  scaffold_teachingDirectives :: "TeachingDirective list"
  emergentPatterns :: EmergentPatterns
  nextEvolutionPath :: "jstring list"
  scaffold_timestamp :: int

text \<open>Truthiness of an optional string, and \<open>interaction.cognitiveLoad || 0.5\<close>.\<close>

definition truthy_string :: "jstring option \<Rightarrow> bool" where
  "truthy_string s = (case s of None \<Rightarrow> False | Some u \<Rightarrow> u \<noteq> [])"

definition load_or_half :: "real option \<Rightarrow> real" where
  "load_or_half l = (case l of None \<Rightarrow> 0.5 | Some x \<Rightarrow> or_number x 0.5)"

text \<open>\<open>x % 1\<close>: the remainder has the sign of \<open>x\<close>.\<close>

definition remainder_one :: "real \<Rightarrow> real" where
  "remainder_one x = (if 0 \<le> x then x - of_int \<lfloor>x\<rfloor> else x - of_int \<lceil>x\<rceil>)"

text \<open>\<open>split(' ')\<close>: every single space separates.\<close>

fun split_space :: "jstring \<Rightarrow> jstring list" where
  "split_space [] = [[]]"
| "split_space (c # cs) =
     (if c = 32 then [] # split_space cs
      else (case split_space cs of
              [] \<Rightarrow> [[c]]
            | w # ws \<Rightarrow> (c # w) # ws))"

definition calculateTranscendentScore ::
  "(jstring \<Rightarrow> jstring) \<Rightarrow> Interaction \<Rightarrow> Interaction \<Rightarrow> real" where
  "calculateTranscendentScore lower interaction1 interaction2 =
     (let words1 = split_space (lower (userInput interaction1));
          words2 = split_space (lower (userInput interaction2));
          commonWords = filter (\<lambda>word. word \<in> set words2) words1;
          semanticSimilarity =
            real (length commonWords) / real (max (length words1) (length words2));
          timeDiff = \<bar>interaction_timestamp interaction1 - interaction_timestamp interaction2\<bar>;
          temporalHarmony = \<bar>sin (timeDiff / 1000 * GOLDEN_RATIO)\<bar>;
          emotionalResonance =
            (if truthy_string (emotionalState interaction1)
                \<and> truthy_string (emotionalState interaction2) then 0.8 else 0.4)
      in semanticSimilarity * 0.4 + temporalHarmony * 0.3 + emotionalResonance * 0.3)"

text \<open>
  The body of the loop of \<open>extractTeachingDirectives\<close> at index \<open>i\<close>: the directive it
  pushes, if any.  \<open>clock i\<close> is the reading of \<open>Date.now()\<close> taken in that iteration.
\<close>

definition directiveAt ::
  "(jstring \<Rightarrow> jstring) \<Rightarrow> (nat \<Rightarrow> int) \<Rightarrow> Interaction list \<Rightarrow> ReflectionDepth \<Rightarrow> nat
     \<Rightarrow> TeachingDirective option" where
  "directiveAt lower clock interactions depth i =
     (let interaction = interactions ! i;
          goldenIndex = nat \<lfloor>real i * GOLDEN_RATIO\<rfloor> mod length interactions;
          resonantInteraction = interactions ! goldenIndex
      in case depth of
           surface \<Rightarrow>
             if 63 \<in> set (userInput interaction) then
               Some \<lparr>directive_id = js ''surface_'' @ Number_toString i @ js ''_'' @ Int_toString (clock i),
                     directive_type = pattern,
                     directive_content =
                       js ''User seeks clarification: '' @ [34] @ take 100 (userInput interaction)
                       @ js ''...'' @ [34],
                     confidence = 0.7,
                     sourceInteractions = [Number_toString i],
                     emergentProperties = \<lparr>resonance = 0.6, coherence = 0.8, applicability = 0.9\<rparr>,
                     goldenRatioAlignment = \<bar>sin (real i * GOLDEN_RATIO)\<bar>\<rparr>
             else None
         | deep \<Rightarrow>
             let emotionalWeight = (if truthy_string (emotionalState interaction) then 0.8 else 0.4);
                 cognitiveComplexity = load_or_half (cognitiveLoad interaction)
             in if cognitiveComplexity > 0.7 then
                  Some \<lparr>directive_id = js ''deep_'' @ Number_toString i @ js ''_'' @ Int_toString (clock i),
                        directive_type = principle,
                        directive_content =
                          js ''High cognitive load detected. User processing complex concepts: ''
                          @ take 80 (userInput interaction),
                        confidence = 0.85,
                        sourceInteractions = [Number_toString i],
                        emergentProperties =
                          \<lparr>resonance = emotionalWeight, coherence = cognitiveComplexity,
                           applicability = 0.75\<rparr>,
                        goldenRatioAlignment = remainder_one (cognitiveComplexity * GOLDEN_RATIO)\<rparr>
                else None
         | transcendent \<Rightarrow>
             let transcendentScore = calculateTranscendentScore lower interaction resonantInteraction
             in if transcendentScore > 0.8 then
                  Some \<lparr>directive_id =
                          js ''transcendent_'' @ Number_toString i @ js ''_'' @ Int_toString (clock i),
                        directive_type = wisdom,
                        directive_content =
                          js ''Transcendent insight emerging: Connection between '' @ [34]
                          @ take 50 (userInput interaction) @ [34]
                          @ js '' and deeper wisdom patterns'',
                        confidence = 0.95,
                        sourceInteractions = [Number_toString i, Number_toString goldenIndex],
                        emergentProperties =
                          \<lparr>resonance = transcendentScore, coherence = 0.9, applicability = 0.6\<rparr>,
                        goldenRatioAlignment = remainder_one (transcendentScore * GOLDEN_RATIO)\<rparr>
                else None)"

text \<open>The loop over the indices, pushing in order.\<close>

fun pushDirectives ::
  "(jstring \<Rightarrow> jstring) \<Rightarrow> (nat \<Rightarrow> int) \<Rightarrow> Interaction list \<Rightarrow> ReflectionDepth \<Rightarrow> nat list
     \<Rightarrow> TeachingDirective list" where
  "pushDirectives lower clock interactions depth [] = []"
| "pushDirectives lower clock interactions depth (i # rest) =
     (case directiveAt lower clock interactions depth i of
        None \<Rightarrow> pushDirectives lower clock interactions depth rest
      | Some d \<Rightarrow> d # pushDirectives lower clock interactions depth rest)"

text \<open>
  \<open>directives.sort((a, b) => b.confidence - a.confidence)\<close>: a stable sort by descending
  confidence.
\<close>

definition extractTeachingDirectives ::
  "(jstring \<Rightarrow> jstring) \<Rightarrow> (nat \<Rightarrow> int) \<Rightarrow> Interaction list \<Rightarrow> ReflectionDepth
     \<Rightarrow> TeachingDirective list" where
  "extractTeachingDirectives lower clock interactions depth =
     sort_key (\<lambda>d. - confidence d)
       (pushDirectives lower clock interactions depth [0..<length interactions])"

definition calculateEmergentPatterns :: "Interaction list \<Rightarrow> TeachingDirective list \<Rightarrow> EmergentPatterns" where
  "calculateEmergentPatterns interactions directives =
     (let n = length interactions;
          avgResponseTime =
            foldl (\<lambda>sum i. if i = 0 then sum
                            else sum + (interaction_timestamp (interactions ! i)
                                        - interaction_timestamp (interactions ! (i - 1))))
              0 [0..<n]
            / real_of_int (max (int n - 1) 1);
          flow = max 0 (1 - avgResponseTime / 10000);
          cognitiveLoads = map (\<lambda>int. load_or_half (cognitiveLoad int)) interactions;
          velocity =
            (if length cognitiveLoads > 1
             then max 0 (cognitiveLoads ! 0 - cognitiveLoads ! (length cognitiveLoads - 1))
             else 0);
          wisdomDirectives = filter (\<lambda>d. directive_type d = wisdom) directives;
          depth =
            (if length wisdomDirectives > 0
             then foldl (\<lambda>sum d. sum + confidence d) 0 wisdomDirectives
                  / real (length wisdomDirectives)
             else 0);
          tension = \<bar>sin (real n * GOLDEN_RATIO)\<bar>;
          harmonic =
            foldl (\<lambda>sum d. sum + goldenRatioAlignment d) 0 directives
            / real (max (length directives) 1)
      in \<lparr>conversationalFlow = flow, learningVelocity = velocity, wisdomDepth = depth,
          sacredGeometry = \<lparr>phi = GOLDEN_RATIO, spiralTension = tension, harmonicResonance = harmonic\<rparr>\<rparr>)"

definition generateEvolutionPath :: "EmergentPatterns \<Rightarrow> TeachingDirective list \<Rightarrow> jstring list" where
  "generateEvolutionPath patterns directives =
     (let paths =
            (if learningVelocity patterns > 0.7
             then [js ''Accelerate complexity introduction'', js ''Introduce meta-cognitive frameworks'']
             else if learningVelocity patterns < 0.3
             then [js ''Simplify concept presentation'', js ''Increase scaffolding support'']
             else [])
            @ (if wisdomDepth patterns > 0.8
               then [js ''Explore transcendent connections'', js ''Introduce sacred geometry principles'']
               else [])
            @ (if conversationalFlow patterns < 0.5
               then [js ''Improve response timing'', js ''Enhance emotional attunement'']
               else [])
            @ (if harmonicResonance (sacredGeometry patterns) > 0.618
               then [js ''Maintain harmonic resonance'', js ''Deepen spiral learning patterns'']
               else [])
      in if length paths > 0 then paths else [js ''Continue current learning trajectory''])"

text \<open>
  \<open>scaffoldReflection(sessionId, interactions, reflectionDepth = 'deep')\<close>.  \<open>stamp\<close> is
  the reading of \<open>Date.now()\<close> for the scaffold.  The function has no \<open>throw\<close>.
\<close>

definition scaffoldReflection ::
  "(jstring \<Rightarrow> jstring) \<Rightarrow> (nat \<Rightarrow> int) \<Rightarrow> int \<Rightarrow> storage \<Rightarrow> jstring \<Rightarrow> Interaction list
     \<Rightarrow> ReflectionDepth option \<Rightarrow> storage \<times> (error + ReflectionScaffold)" where
  "scaffoldReflection lower clock stamp st sessionId interactions depth_arg =
     (let reflectionDepth = (case depth_arg of None \<Rightarrow> deep | Some d \<Rightarrow> d);
          directives = extractTeachingDirectives lower clock interactions reflectionDepth;
          patterns = calculateEmergentPatterns interactions directives;
          path = generateEvolutionPath patterns directives;
          scaffold =
            \<lparr>scaffold_sessionId = sessionId, scaffold_teachingDirectives = directives,
             emergentPatterns = patterns, nextEvolutionPath = path, scaffold_timestamp = stamp\<rparr>;
          st' = storeTeachingDirectives st sessionId directives
      in (st', Inr scaffold))"

section \<open>Stored sessions and an example state\<close>

text \<open>
  \<open>createSession\<close> stores a session under its own id, and \<open>updateMetrics\<close> writes a
  session back under the id it carries: in every state these two operations reach from
  the empty storage, a full session stored under a key has that key as its id.
\<close>

definition store_consistent :: "storage \<Rightarrow> bool" where
  "store_consistent st = (\<forall>k s. sessions st k = Some (SessionObj s) \<longrightarrow> session_id s = k)"

text \<open>A storage holding one freshly created session, used to exercise the theorems.\<close>

definition example_session :: LimnusSession where
  "example_session = newSession (js ''s1'') (js ''t0'') ACTIVATION_PHRASE None"

definition example_storage :: storage where
  "example_storage = empty_storage\<lparr>sessions := [js ''s1'' \<mapsto> SessionObj example_session]\<rparr>"

text \<open>The value a call returned, and a batch of two interactions.\<close>

definition returned :: "storage \<times> (error + 'a) \<Rightarrow> 'a" where
  "returned outcome = projr (snd outcome)"

definition example_batch :: "Interaction list" where
  "example_batch =
     [\<lparr>interaction_timestamp = 0, userInput = js ''hello'', systemResponse = js ''hi'',
       emotionalState = None, cognitiveLoad = Some 1\<rparr>,
      \<lparr>interaction_timestamp = 2000, userInput = js ''why?'', systemResponse = js ''because'',
       emotionalState = None, cognitiveLoad = Some 0\<rparr>]"

text \<open>
  The updates on which the real-valued model and the code's double arithmetic agree up
  to the rounding of the last places: every supplied value and the duration are
  non-negative and at most \<open>2^53\<close>.  Then \<open>Math.log\<close> gets no negative argument (no
  NaN), no sum overflows, and all addends of the coherence score are non-negative, so
  that nothing cancels.
\<close>

definition update_in_range :: "(jstring \<times> real option) list \<Rightarrow> UpdateContext option \<Rightarrow> bool" where
  "update_in_range given context =
     (list_all (\<lambda>(k, v). case v of None \<Rightarrow> True | Some x \<Rightarrow> 0 \<le> x \<and> x \<le> 2 ^ 53) given
      \<and> (case context of None \<Rightarrow> True | Some c \<Rightarrow> 0 \<le> duration c \<and> duration c \<le> 2 ^ 53))"

text \<open>
  An update with caller-supplied fields, one of them \<open>undefined\<close> and one overridden by
  a derived field, and a context with a user input.
\<close>

definition example_update :: "(jstring \<times> real option) list" where
  "example_update =
     [(js ''emotionalDepth'', Some (3 / 4)),
      (js ''phaseAlignment'', Some (1 / 10)),
      (js ''creativityIndex'', None)]"

definition example_context :: UpdateContext where
  "example_context = \<lparr>action = js ''chat'', duration = 0, context_userInput = Some (js ''hi'')\<rparr>"

section \<open>Properties of the hash utility\<close>

lemma below_16_cases:
  "d < 16 \<Longrightarrow> d = 0 \<or> d = 1 \<or> d = 2 \<or> d = 3 \<or> d = 4 \<or> d = 5 \<or> d = 6 \<or> d = 7
     \<or> d = 8 \<or> d = 9 \<or> d = 10 \<or> d = 11 \<or> d = 12 \<or> d = 13 \<or> d = 14 \<or> d = (15::nat)"
  by arith

lemma hex_digit_in_hex_chars: "d < 16 \<Longrightarrow> hex_digit d \<in> set hex_chars"
  by (drule below_16_cases) (auto simp: hex_digit_def hex_chars_def js_def)

lemma hex_digit_value_hex_digit: "d < 16 \<Longrightarrow> hex_digit_value (hex_digit d) = d"
  by (drule below_16_cases) (auto simp: hex_digit_def hex_digit_value_def)

lemma Number_toString16_hex: "set (Number_toString16 n) \<subseteq> set hex_chars"
proof (induction n rule: Number_toString16.induct)
  case (1 n)
  show ?case
  proof (cases "n < 16")
    case True
    then show ?thesis
      using hex_digit_in_hex_chars [of n] by (subst Number_toString16.simps) simp
  next
    case False
    have "n mod 16 < 16" by simp
    then have "hex_digit (n mod 16) \<in> set hex_chars"
      by (rule hex_digit_in_hex_chars)
    with False "1.IH" show ?thesis
      by (subst Number_toString16.simps) simp
  qed
qed

lemma Number_toString16_nonempty: "Number_toString16 n \<noteq> []"
  by (subst Number_toString16.simps) simp

lemma hex_value_append:
  "hex_value (s @ [c]) = 16 * hex_value s + hex_digit_value c"
  by (simp add: hex_value_def)

lemma hex_value_Number_toString16: "hex_value (Number_toString16 n) = n"
proof (induction n rule: Number_toString16.induct)
  case (1 n)
  show ?case
  proof (cases "n < 16")
    case True
    then show ?thesis
      by (subst Number_toString16.simps) (simp add: hex_value_def hex_digit_value_hex_digit)
  next
    case False
    have "hex_value (Number_toString16 n)
        = 16 * hex_value (Number_toString16 (n div 16)) + hex_digit_value (hex_digit (n mod 16))"
      using False by (subst Number_toString16.simps) (simp add: hex_value_append)
    also have "\<dots> = 16 * (n div 16) + n mod 16"
      using False "1.IH" by (simp add: hex_digit_value_hex_digit)
    also have "\<dots> = n" by simp
    finally show ?thesis .
  qed
qed

lemma abs_sint_le: "nat \<bar>sint (w :: 32 word)\<bar> \<le> 2147483648"
proof -
  have "- (2 ^ 31) \<le> sint w" and "sint w < 2 ^ 31"
    using sint_ge [of w] sint_lt [of w] by simp_all
  then show ?thesis by simp
qed

text \<open>
  Claim C9.  \<open>createHash\<close> is a function of the code units of its argument alone (it takes
  no clock, random or storage input, so equal inputs give equal outputs), it is defined
  on every string including the empty one, and its result is the hexadecimal numeral of a
  non-negative integer: it is the rendering of \<open>|hash|\<close>, it consists of the digits
  \<open>0-9a-f\<close> only, it is not empty, and reading it back in base 16 gives \<open>|hash|\<close> again.
  The empty string hashes to \<open>"0"\<close>.
\<close>

theorem createHash_hex_of_nonnegative:
  "createHash d = Number_toString16 (nat \<bar>sint (hash_loop d)\<bar>)
   \<and> hex_value (createHash d) = nat \<bar>sint (hash_loop d)\<bar>
   \<and> set (createHash d) \<subseteq> set hex_chars
   \<and> createHash d \<noteq> []
   \<and> nat \<bar>sint (hash_loop d)\<bar> \<le> 2147483648
   \<and> createHash [] = js ''0''"
proof -
  have "createHash [] = js ''0''"
    by (simp add: createHash_def hash_loop_def Number_toString16.simps hex_digit_def js_def)
  then show ?thesis
    by (simp add: createHash_def hex_value_Number_toString16 Number_toString16_hex
        Number_toString16_nonempty abs_sint_le)
qed

theorem createHash_hex_of_nonnegative_witness:
  "createHash (js ''abc'') = js ''17862'' \<and> hex_value (createHash (js ''abc'')) = 96354"
proof -
  have h: "hash_loop (js ''abc'') = 96354"
    by (simp add: hash_loop_def hash_step_def js_def)
  have n: "nat \<bar>sint (96354 :: 32 word)\<bar> = 96354"
    by simp
  have r: "Number_toString16 96354 = js ''17862''"
    by (simp add: Number_toString16.simps hex_digit_def js_def)
  note t = createHash_hex_of_nonnegative [of "js ''abc''", unfolded h n r]
  from t show ?thesis by blast
qed

section \<open>Properties of session creation\<close>

lemma length_generateUUID: "length (generateUUID rnd) = 36"
  by (simp add: generateUUID_def)

lemma generateUUID_not_proto: "generateUUID rnd \<noteq> js ''__proto__''"
proof
  assume "generateUUID rnd = js ''__proto__''"
  then have "length (generateUUID rnd) = length (js ''__proto__'')" by simp
  then show False by (simp add: length_generateUUID js_def)
qed

text \<open>
  Claim C1.  For every phrase other than the activation phrase, \<open>createSession\<close> throws
  the invalid-consent error and leaves the storage as it was: the sessions record, the
  current-session pointer and the directive record are those of the state before the call.
\<close>

theorem createSession_rejects_other_phrases:
  "phrase_arg \<noteq> ACTIVATION_PHRASE \<Longrightarrow>
   createSession st phrase_arg fingerprint rnd now seed = (st, Inl InvalidConsent)"
  by (simp add: createSession_def)

theorem createSession_rejects_other_phrases_witness:
  "js ''I consent'' \<noteq> ACTIVATION_PHRASE
   \<and> createSession empty_storage (js ''I consent'') None (\<lambda>n. 0) (js ''2024-01-01T00:00:00.000Z'') 0
       = (empty_storage, Inl InvalidConsent)"
proof -
  have ne: "js ''I consent'' \<noteq> ACTIVATION_PHRASE"
    by (simp add: ACTIVATION_PHRASE_def js_def)
  from createSession_rejects_other_phrases [OF ne] ne show ?thesis by simp
qed

text \<open>
  Claim C6.  With the activation phrase, \<open>createSession\<close> returns, and the session it
  has stored under the returned id (which is also the current session) has a memory chain
  of exactly one block, with \<open>previousHash = "0"\<close>, \<open>signature = "genesis"\<close>, data type
  \<open>interaction\<close> and significance \<open>1.0\<close>.  This holds from any storage, for any device
  fingerprint, random draws and clock reading.
\<close>

theorem createSession_persists_genesis:
  "\<exists>st' r s b.
     createSession st ACTIVATION_PHRASE fingerprint rnd now seed = (st', Inr r)
     \<and> sessions st' (created_sessionId r) = Some (SessionObj s)
     \<and> getSession st' (created_sessionId r) = Some (Own (SessionObj s))
     \<and> current_session st' = Some (created_sessionId r)
     \<and> session_id s = created_sessionId r
     \<and> memoryChain s = [b]
     \<and> previousHash b = js ''0''
     \<and> signature b = js ''genesis''
     \<and> data_type (block_data b) = Interaction
     \<and> data_significance (block_data b) = 1"
  by (simp add: createSession_def Let_def storeSession_def setCurrentSession_def session_key_def
      js_set_def js_get_def getSession_def newSession_def genesisBlock_def generateUUID_not_proto)

theorem createSession_persists_genesis_witness:
  "\<exists>st' r s b.
     createSession empty_storage ACTIVATION_PHRASE None (\<lambda>n. 0) (js ''2024-01-01T00:00:00.000Z'') 0
       = (st', Inr r)
     \<and> created_sessionId r = js ''00000000-0000-4000-8000-000000000000''
     \<and> sessions st' (created_sessionId r) = Some (SessionObj s)
     \<and> memoryChain s = [b]
     \<and> previousHash b = js ''0''
     \<and> signature b = js ''genesis''"
proof -
  obtain st' r s b where
    c: "createSession empty_storage ACTIVATION_PHRASE None (\<lambda>n. 0) (js ''2024-01-01T00:00:00.000Z'') 0
          = (st', Inr r)"
    and p: "sessions st' (created_sessionId r) = Some (SessionObj s)" "memoryChain s = [b]"
      "previousHash b = js ''0''" "signature b = js ''genesis''"
    using createSession_persists_genesis
      [of empty_storage None "\<lambda>n. 0" "js ''2024-01-01T00:00:00.000Z''" 0]
    by blast
  have "created_sessionId r = generateUUID (\<lambda>n. 0)"
    using c by (auto simp: createSession_def Let_def)
  moreover have "generateUUID (\<lambda>n. 0) = js ''00000000-0000-4000-8000-000000000000''"
    by (simp add: generateUUID_def hex_digit_def js_def)
  ultimately have "created_sessionId r = js ''00000000-0000-4000-8000-000000000000''"
    by simp
  with c p show ?thesis by blast
qed

section \<open>Properties of the metrics update\<close>

lemma cleanedMetrics_no_context:
  "cleanedMetrics lower [] None =
     [(js ''phaseAlignment'', 1 / 2), (js ''responseLatency'', 0),
      (js ''spiralResonance'', 1), (js ''consciousnessDepth'', 0)]"
  by (simp add: cleanedMetrics_def cleanMetrics_def List.map_filter_simps spread_def
      derivedMetrics_def context_duration_def context_interactionPattern_def
      calculatePhaseAlignment_def calculateSpiralResonance_def calculateConsciousnessDepth_def
      js_def)

lemma getSession_constructor: "getSession empty_storage (js ''constructor'') = Some Inherited"
  by (simp add: getSession_def js_get_def empty_storage_def Object_prototype_names_def js_def)

text \<open>
  A session id that names no stored session and is not a member of \<open>Object.prototype\<close>
  is rejected, and the storage is unchanged.
\<close>

lemma updateMetrics_unknown_id:
  "sessions st sessionId = None \<Longrightarrow> sessionId \<notin> set Object_prototype_names \<Longrightarrow>
   updateMetrics lower st sessionId given context now now' = (st, Inl SessionNotFound)"
  by (simp add: updateMetrics_def getSession_def js_get_def)

text \<open>
  Claim C2 at the session id \<open>"constructor"\<close>, on the empty storage.  No session is
  stored under that id, but \<open>sessions["constructor"]\<close> is the inherited \<open>Object\<close> function,
  so the test \<open>!session\<close> fails to reject it: \<open>updateMetrics\<close> returns \<open>success\<close> and
  writes an object \<open>{metrics, lastActivity}\<close> into the sessions record under the key
  \<open>"undefined"\<close>.
\<close>

theorem updateMetrics_inherited_name:
  "sessions empty_storage (js ''constructor'') = None
   \<and> updateMetrics lower empty_storage (js ''constructor'') [] None now now'
       = (empty_storage\<lparr>sessions :=
             [js ''undefined'' \<mapsto>
                MetricsOnlyObj
                  [(js ''phaseAlignment'', 1 / 2), (js ''responseLatency'', 0),
                   (js ''spiralResonance'', 1), (js ''consciousnessDepth'', 0)] now]\<rparr>,
          Inr \<lparr>success = True,
               updatedMetrics =
                 [(js ''phaseAlignment'', 1 / 2), (js ''responseLatency'', 0),
                  (js ''spiralResonance'', 1), (js ''consciousnessDepth'', 0)],
               result_timestamp = now', coherenceScore = 3 / 8\<rparr>)
   \<and> updateMetrics lower empty_storage (js ''constructor'') [] None now now'
       \<noteq> (empty_storage, Inl SessionNotFound)"
proof -
  have u: "js ''undefined'' \<noteq> js ''__proto__''"
    by (simp add: js_def)
  have s: "calculateOverallCoherence
             [(js ''phaseAlignment'', 1 / 2), (js ''responseLatency'', 0),
              (js ''spiralResonance'', 1), (js ''consciousnessDepth'', 0)] = 3 / 8"
    by (simp add: calculateOverallCoherence_def)
  have m: "spread []
             [(js ''phaseAlignment'', 1 / 2), (js ''responseLatency'', 0),
              (js ''spiralResonance'', 1), (js ''consciousnessDepth'', 0 :: real)]
           = [(js ''phaseAlignment'', 1 / 2), (js ''responseLatency'', 0),
              (js ''spiralResonance'', 1), (js ''consciousnessDepth'', 0)]"
    by (simp add: spread_def js_def)
  show ?thesis
    by (simp add: updateMetrics_def getSession_constructor cleanedMetrics_no_context Let_def
        metrics_of_def updatedSession_def storeSession_def session_key_def js_set_def u s m)
      (simp add: empty_storage_def)
qed

section \<open>Object spreads and the cleaned update\<close>

lemma foldl_add_sum_list: "foldl (\<lambda>acc val. acc + val) a vs = a + sum_list (vs :: real list)"
  by (induction vs arbitrary: a) simp_all

lemma map_of_set_property: "map_of (set_property k v ps) = (map_of ps)(k \<mapsto> v)"
  by (induction ps) (auto simp: fun_eq_iff)

lemma keys_set_property: "fst ` set (set_property k v ps) = insert k (fst ` set ps)"
  by (induction ps) auto

lemma distinct_set_property:
  "distinct (map fst ps) \<Longrightarrow> distinct (map fst (set_property k v ps))"
proof (induction ps)
  case Nil
  then show ?case by simp
next
  case (Cons p ps)
  have "fst ` set (set_property k v ps) = insert k (fst ` set ps)"
    by (rule keys_set_property)
  with Cons show ?case by auto
qed

lemma map_of_spread_other:
  "k \<notin> fst ` set ext \<Longrightarrow> map_of (spread base ext) k = map_of base k"
proof (induction ext arbitrary: base)
  case Nil
  then show ?case by (simp add: spread_def)
next
  case (Cons p ext)
  obtain k' v' where p: "p = (k', v')" by (cases p)
  from Cons.prems p have "k \<noteq> k'" and "k \<notin> fst ` set ext" by auto
  then have "map_of (spread (set_property k' v' base) ext) k = map_of (set_property k' v' base) k"
    using Cons.IH by blast
  also have "\<dots> = map_of base k"
    using \<open>k \<noteq> k'\<close> by (simp add: map_of_set_property)
  finally show ?case by (simp add: spread_def p)
qed

lemma map_of_spread:
  "distinct (map fst ext) \<Longrightarrow> map_of (spread base ext) = map_of base ++ map_of ext"
proof (induction ext arbitrary: base)
  case Nil
  then show ?case by (simp add: spread_def)
next
  case (Cons p ext)
  obtain k v where p: "p = (k, v)" by (cases p)
  from Cons.prems p have k: "k \<notin> fst ` set ext" and d: "distinct (map fst ext)" by auto
  have "map_of (spread base (p # ext)) = map_of (spread (set_property k v base) ext)"
    by (simp add: spread_def p)
  also have "\<dots> = (map_of base)(k \<mapsto> v) ++ map_of ext"
    by (simp only: Cons.IH [OF d] map_of_set_property)
  also have "\<dots> = map_of base ++ map_of (p # ext)"
  proof (rule ext)
    fix x
    from k have "map_of ext k = None"
      by (simp add: map_of_eq_None_iff)
    then show "((map_of base)(k \<mapsto> v) ++ map_of ext) x = (map_of base ++ map_of (p # ext)) x"
      by (auto simp: map_add_def p split: option.splits)
  qed
  finally show ?case .
qed

lemma distinct_spread:
  "distinct (map fst base) \<Longrightarrow> distinct (map fst (spread base ext))"
proof (induction ext arbitrary: base)
  case Nil
  then show ?case by (simp add: spread_def)
next
  case (Cons p ext)
  obtain k v where p: "p = (k, v)" by (cases p)
  have "distinct (map fst (set_property k v base))"
    using Cons.prems by (rule distinct_set_property)
  then have "distinct (map fst (spread (set_property k v base) ext))"
    by (rule Cons.IH)
  then show ?case by (simp add: spread_def p)
qed

lemma map_of_cleanMetrics:
  "distinct (map fst um) \<Longrightarrow>
   map_of (cleanMetrics um) k = (case map_of um k of Some v \<Rightarrow> v | None \<Rightarrow> None)"
proof (induction um)
  case Nil
  then show ?case by (simp add: cleanMetrics_def List.map_filter_simps)
next
  case (Cons p um)
  obtain k' v' where p: "p = (k', v')" by (cases p)
  from Cons.prems p have k': "k' \<notin> fst ` set um" and d: "distinct (map fst um)" by auto
  have ih: "map_of (cleanMetrics um) k = (case map_of um k of Some v \<Rightarrow> v | None \<Rightarrow> None)"
    using Cons.IH [OF d] .
  have none: "map_of um k' = None"
    using k' by (simp add: map_of_eq_None_iff)
  show ?case
  proof (cases v')
    case None
    then have "cleanMetrics (p # um) = cleanMetrics um"
      by (simp add: cleanMetrics_def List.map_filter_simps p)
    with ih none None show ?thesis by (auto simp: p)
  next
    case (Some x)
    then have "cleanMetrics (p # um) = (k', x) # cleanMetrics um"
      by (simp add: cleanMetrics_def List.map_filter_simps p)
    with ih Some show ?thesis by (auto simp: p)
  qed
qed

lemma distinct_derivedMetrics: "distinct (map fst (derivedMetrics lower ctx))"
  by (simp add: derivedMetrics_def Let_def js_def)

lemma map_of_cleanedMetrics:
  assumes "distinct (map fst given)"
  shows "map_of (cleanedMetrics lower given ctx) k =
           (case map_of (derivedMetrics lower ctx) k of
              Some v \<Rightarrow> v
            | None \<Rightarrow> (case map_of given k of Some v \<Rightarrow> v | None \<Rightarrow> None))"
proof -
  have "distinct (map fst (spread given (derivedMetrics lower ctx)))"
    using assms by (rule distinct_spread)
  then have "map_of (cleanedMetrics lower given ctx) k =
      (case map_of (spread given (derivedMetrics lower ctx)) k of Some v \<Rightarrow> v | None \<Rightarrow> None)"
    unfolding cleanedMetrics_def by (rule map_of_cleanMetrics)
  also have "map_of (spread given (derivedMetrics lower ctx))
      = map_of given ++ map_of (derivedMetrics lower ctx)"
    using distinct_derivedMetrics by (rule map_of_spread)
  finally show ?thesis
    by (simp add: map_add_def split: option.splits)
qed

lemma cleanedMetrics_nonempty:
  assumes "distinct (map fst given)"
  shows "cleanedMetrics lower given ctx \<noteq> []"
proof
  assume e: "cleanedMetrics lower given ctx = []"
  have "map_of (cleanedMetrics lower given ctx) (js ''phaseAlignment'')
      = Some (calculatePhaseAlignment (context_duration ctx))"
    by (simp add: map_of_cleanedMetrics [OF assms] derivedMetrics_def Let_def)
  with e show False by simp
qed

lemma calculateOverallCoherence_mean:
  "m \<noteq> [] \<Longrightarrow> calculateOverallCoherence m = sum_list (map snd m) / real (length m)"
  by (simp add: calculateOverallCoherence_def foldl_add_sum_list)

lemma updateMetrics_stored:
  "sessions st sid = Some v \<Longrightarrow>
   updateMetrics lower st sid given ctx now now' =
     (storeSession st (updatedSession (Own v)
        (spread (metrics_of (Own v)) (cleanedMetrics lower given ctx)) now),
      Inr \<lparr>success = True, updatedMetrics = cleanedMetrics lower given ctx,
           result_timestamp = now',
           coherenceScore = calculateOverallCoherence (cleanedMetrics lower given ctx)\<rparr>)"
  by (simp add: updateMetrics_def getSession_def js_get_def Let_def)

lemma spread_initialMetrics_no_context:
  "spread initialMetrics
     [(js ''phaseAlignment'', 1 / 2), (js ''responseLatency'', 0),
      (js ''spiralResonance'', 1), (js ''consciousnessDepth'', 0)] =
     [(js ''neuralComplexity'', 0.5),
      (js ''brainwaveCoherence'', 0.5),
      (js ''autonomicBalance'', 0.5),
      (js ''responseLatency'', 0),
      (js ''interactionPattern'', 0.5),
      (js ''emotionalDepth'', 0.5),
      (js ''spiralResonance'', 1),
      (js ''quantumCoherence'', 0.5),
      (js ''blockchainResonance'', 1.0),
      (js ''paradoxResolution'', 0.5),
      (js ''memoryConsolidation'', 0.5),
      (js ''creativityIndex'', 0.5),
      (js ''phaseAlignment'', 1 / 2),
      (js ''consciousnessDepth'', 0),
      (js ''emergenceLevel'', 0.2),
      (js ''empathyResonance'', 0.5),
      (js ''collectiveCoherence'', 0.5),
      (js ''sovereigntyBalance'', 0.8),
      (js ''selfReflectionDepth'', 0.4),
      (js ''patternRecognition'', 0.5),
      (js ''intentionalityClarity'', 0.7)]"
  by (simp add: spread_def initialMetrics_def js_def)

lemma example_storage_session:
  "sessions example_storage (js ''s1'') = Some (SessionObj example_session)"
  by (simp add: example_storage_def)

lemma keys_spread: "fst ` set (spread base ext) = fst ` set base \<union> fst ` set ext"
proof (induction ext arbitrary: base)
  case Nil
  then show ?case by (simp add: spread_def)
next
  case (Cons p ext)
  obtain k v where p: "p = (k, v)" by (cases p)
  have "fst ` set (spread (set_property k v base) ext)
      = fst ` set (set_property k v base) \<union> fst ` set ext"
    by (rule Cons.IH)
  then show ?case
    by (simp add: spread_def p keys_set_property)
qed

lemma set_set_property: "set (set_property k v ps) \<subseteq> insert (k, v) (set ps)"
  by (induction ps) auto

lemma set_spread: "set (spread base ext) \<subseteq> set base \<union> set ext"
proof (induction ext arbitrary: base)
  case Nil
  then show ?case by (simp add: spread_def)
next
  case (Cons p ext)
  obtain k v where p: "p = (k, v)" by (cases p)
  have "set (spread (set_property k v base) ext) \<subseteq> set (set_property k v base) \<union> set ext"
    by (rule Cons.IH)
  also have "\<dots> \<subseteq> insert (k, v) (set base) \<union> set ext"
    using set_set_property [of k v base] by blast
  finally show ?case by (auto simp: spread_def p)
qed

lemma set_cleanMetrics: "(k, x) \<in> set (cleanMetrics um) \<longleftrightarrow> (k, Some x) \<in> set um"
  by (induction um) (auto simp: cleanMetrics_def List.map_filter_simps split: option.splits)

lemma calculateInteractionComplexity_nonneg: "0 \<le> calculateInteractionComplexity lower u"
  by (simp add: calculateInteractionComplexity_def Let_def)

lemma context_duration_nonneg:
  "update_in_range given ctx \<Longrightarrow> 0 \<le> context_duration ctx"
  by (auto simp: update_in_range_def context_duration_def or_number_def split: option.splits)

lemma derivedMetrics_nonneg:
  assumes "update_in_range given ctx" and "(k, Some x) \<in> set (derivedMetrics lower ctx)"
  shows "0 \<le> x"
  using assms(2) context_duration_nonneg [OF assms(1)]
  by (auto simp: derivedMetrics_def Let_def calculatePhaseAlignment_def
      calculateSpiralResonance_def calculateConsciousnessDepth_def
      context_interactionPattern_def calculateInteractionComplexity_nonneg
      split: option.splits if_splits)

lemma cleanedMetrics_nonneg:
  assumes "update_in_range given ctx" and "(k, x) \<in> set (cleanedMetrics lower given ctx)"
  shows "0 \<le> x"
proof -
  from assms(2) have "(k, Some x) \<in> set (spread given (derivedMetrics lower ctx))"
    by (simp add: cleanedMetrics_def set_cleanMetrics)
  then have "(k, Some x) \<in> set given \<or> (k, Some x) \<in> set (derivedMetrics lower ctx)"
    using set_spread [of given "derivedMetrics lower ctx"] by blast
  then show ?thesis
  proof
    assume "(k, Some x) \<in> set given"
    with assms(1) show ?thesis
      by (auto simp: update_in_range_def list_all_iff)
  next
    assume "(k, Some x) \<in> set (derivedMetrics lower ctx)"
    with assms(1) show ?thesis by (rule derivedMetrics_nonneg)
  qed
qed

lemma split_whitespace_hi: "split_whitespace (js ''hi'') = [js ''hi'']"
  by (simp add: js_def is_whitespace_def)

lemma calculateInteractionComplexity_hi:
  "calculateInteractionComplexity (\<lambda>u. u) (js ''hi'') = 127 / 300"
  by (simp add: calculateInteractionComplexity_def Let_def split_whitespace_hi
      remove_whitespace_def) (simp add: js_def is_whitespace_def)

lemma cleanedMetrics_example:
  "cleanedMetrics (\<lambda>u. u) example_update (Some example_context) =
     [(js ''emotionalDepth'', 3 / 4), (js ''phaseAlignment'', 1 / 2),
      (js ''responseLatency'', 0), (js ''interactionPattern'', 127 / 300),
      (js ''spiralResonance'', 1), (js ''consciousnessDepth'', 0)]"
proof -
  have d: "derivedMetrics (\<lambda>u. u) (Some example_context) =
     [(js ''phaseAlignment'', Some (1 / 2)), (js ''responseLatency'', Some 0),
      (js ''interactionPattern'', Some (127 / 300)),
      (js ''spiralResonance'', Some 1), (js ''consciousnessDepth'', Some 0)]"
    by (simp add: derivedMetrics_def context_duration_def context_interactionPattern_def
        example_context_def or_number_def calculateInteractionComplexity_hi
        calculatePhaseAlignment_def calculateSpiralResonance_def
        calculateConsciousnessDepth_def)
      (simp add: js_def)
  show ?thesis
    unfolding cleanedMetrics_def d
    by (simp add: example_update_def spread_def cleanMetrics_def List.map_filter_simps js_def)
qed

lemma spread_initialMetrics_example:
  "map_of (spread initialMetrics
     [(js ''emotionalDepth'', 3 / 4), (js ''phaseAlignment'', 1 / 2),
      (js ''responseLatency'', 0), (js ''interactionPattern'', 127 / 300),
      (js ''spiralResonance'', 1), (js ''consciousnessDepth'', 0)]) (js ''creativityIndex'')
     = Some (1 / 2)
   \<and> calculateOverallCoherence (spread initialMetrics
     [(js ''emotionalDepth'', 3 / 4), (js ''phaseAlignment'', 1 / 2),
      (js ''responseLatency'', 0), (js ''interactionPattern'', 127 / 300),
      (js ''spiralResonance'', 1), (js ''consciousnessDepth'', 0)]) = 808 / 1575"
  by (simp add: spread_def initialMetrics_def calculateOverallCoherence_def js_def)

text \<open>
  Claim C3.  For a stored session and an update in range (distinct keys, supplied values
  and duration non-negative and at most \<open>2^53\<close>), \<open>updateMetrics\<close> succeeds and the
  \<open>coherenceScore\<close> it returns is the arithmetic mean of the values of the cleaned partial
  record it returns as \<open>updatedMetrics\<close>.  That record is not empty, and it holds, for
  each key, the derived value when the key is one of the five derived fields and the
  caller's value otherwise, fields whose value is \<open>undefined\<close> being dropped; its values,
  and so the score, are non-negative numbers.  The session's full metrics record does
  not enter the score: in the example after the theorem the score is \<open>401/900\<close> while
  the mean of the 21 stored fields is \<open>808/1575\<close>.

  The mean is the exact one.  The code adds doubles from left to right and divides by
  the count, which rounds each partial sum; outside the range of the hypothesis the
  code's value can be NaN (a duration below \<open>-60000\<close>), infinite, or far from the mean
  (cancelling addends), and the theorem says nothing there.
\<close>

theorem updateMetrics_coherenceScore:
  assumes "sessions st sid = Some v"
    and "distinct (map fst given)"
    and "update_in_range given ctx"
  shows "\<exists>st' r.
     updateMetrics lower st sid given ctx now now' = (st', Inr r)
     \<and> updatedMetrics r = cleanedMetrics lower given ctx
     \<and> updatedMetrics r \<noteq> []
     \<and> coherenceScore r = sum_list (map snd (updatedMetrics r)) / real (length (updatedMetrics r))
     \<and> (\<forall>k. map_of (updatedMetrics r) k =
            (case map_of (derivedMetrics lower ctx) k of
               Some d \<Rightarrow> d
             | None \<Rightarrow> (case map_of given k of Some g \<Rightarrow> g | None \<Rightarrow> None)))
     \<and> (\<forall>x \<in> set (map snd (updatedMetrics r)). 0 \<le> x)
     \<and> 0 \<le> coherenceScore r"
proof -
  let ?cleaned = "cleanedMetrics lower given ctx"
  have ne: "?cleaned \<noteq> []"
    using assms(2) by (rule cleanedMetrics_nonempty)
  have nonneg: "\<forall>x \<in> set (map snd ?cleaned). 0 \<le> x"
    using cleanedMetrics_nonneg [OF assms(3)] by auto
  then have "0 \<le> sum_list (map snd ?cleaned)"
    by (intro sum_list_nonneg) auto
  then have score: "0 \<le> calculateOverallCoherence ?cleaned"
    by (simp add: calculateOverallCoherence_mean [OF ne])
  show ?thesis
    using nonneg score
    by (simp add: updateMetrics_stored [OF assms(1)] ne calculateOverallCoherence_mean [OF ne]
        map_of_cleanedMetrics [OF assms(2)])
qed

theorem updateMetrics_coherenceScore_witness:
  "sessions example_storage (js ''s1'') = Some (SessionObj example_session)
   \<and> distinct (map fst example_update)
   \<and> update_in_range example_update (Some example_context)
   \<and> (\<exists>st' r s'.
         updateMetrics (\<lambda>u. u) example_storage (js ''s1'') example_update (Some example_context)
           (js ''t1'') (js ''t2'') = (st', Inr r)
         \<and> updatedMetrics r =
             [(js ''emotionalDepth'', 3 / 4), (js ''phaseAlignment'', 1 / 2),
              (js ''responseLatency'', 0), (js ''interactionPattern'', 127 / 300),
              (js ''spiralResonance'', 1), (js ''consciousnessDepth'', 0)]
         \<and> coherenceScore r = 401 / 900
         \<and> sessions st' (js ''s1'') = Some (SessionObj s')
         \<and> calculateOverallCoherence (session_metrics s') = 808 / 1575)"
proof -
  let ?cleaned = "[(js ''emotionalDepth'', 3 / 4), (js ''phaseAlignment'', 1 / 2),
      (js ''responseLatency'', 0), (js ''interactionPattern'', 127 / 300),
      (js ''spiralResonance'', 1), (js ''consciousnessDepth'', 0 :: real)]"
  have d: "distinct (map fst example_update)"
    by (simp add: example_update_def js_def)
  have g: "update_in_range example_update (Some example_context)"
    by (simp add: update_in_range_def example_update_def example_context_def)
  obtain st' r where
    u: "updateMetrics (\<lambda>u. u) example_storage (js ''s1'') example_update (Some example_context)
          (js ''t1'') (js ''t2'') = (st', Inr r)"
    and m: "updatedMetrics r = cleanedMetrics (\<lambda>u. u) example_update (Some example_context)"
    and c: "coherenceScore r = sum_list (map snd (updatedMetrics r)) / real (length (updatedMetrics r))"
    using updateMetrics_coherenceScore [where lower = "\<lambda>u. u" and now = "js ''t1''"
        and now' = "js ''t2''", OF example_storage_session d g]
    by (elim exE conjE) (rule that, assumption+)
  have m': "updatedMetrics r = ?cleaned"
    by (simp only: m cleanedMetrics_example)
  have score: "coherenceScore r = 401 / 900"
    by (simp add: c m')
  have st': "st' = storeSession example_storage
      (SessionObj (example_session\<lparr>session_metrics := spread initialMetrics ?cleaned,
                                    lastActivity := js ''t1''\<rparr>))"
    using u
    by (simp add: updateMetrics_stored [OF example_storage_session] cleanedMetrics_example
        updatedSession_def metrics_of_def example_session_def newSession_def)
  have id: "session_id example_session = js ''s1''"
    by (simp add: example_session_def newSession_def)
  have stored: "sessions st' (js ''s1'') = Some (SessionObj
      (example_session\<lparr>session_metrics := spread initialMetrics ?cleaned,
                        lastActivity := js ''t1''\<rparr>))"
    by (simp add: st' storeSession_def session_key_def id js_set_def example_storage_def)
  have full: "calculateOverallCoherence (spread initialMetrics ?cleaned) = 808 / 1575"
    using spread_initialMetrics_example by (rule conjunct2)
  have "session_metrics (example_session\<lparr>session_metrics := spread initialMetrics ?cleaned,
                        lastActivity := js ''t1''\<rparr>) = spread initialMetrics ?cleaned"
    by simp
  with full have full': "calculateOverallCoherence
      (session_metrics (example_session\<lparr>session_metrics := spread initialMetrics ?cleaned,
                        lastActivity := js ''t1''\<rparr>)) = 808 / 1575"
    by (simp only:)
  from u m' score stored full' have "\<exists>st' r s'.
         updateMetrics (\<lambda>u. u) example_storage (js ''s1'') example_update (Some example_context)
           (js ''t1'') (js ''t2'') = (st', Inr r)
         \<and> updatedMetrics r = ?cleaned
         \<and> coherenceScore r = 401 / 900
         \<and> sessions st' (js ''s1'') = Some (SessionObj s')
         \<and> calculateOverallCoherence (session_metrics s') = 808 / 1575"
    by (intro exI conjI)
  with example_storage_session d g show ?thesis
    by (intro conjI)
qed

text \<open>
  Claim C7.  For a session stored under its id, \<open>updateMetrics\<close> succeeds and the session
  stored afterwards is the old one with new \<open>metrics\<close> and \<open>lastActivity\<close>: its id,
  \<open>userId\<close>, \<open>phase\<close>, \<open>consentTimestamp\<close>, \<open>memoryChain\<close>, \<open>coherenceTarget\<close>,
  \<open>spiralDepth\<close> and \<open>teachingDirectives\<close> are unchanged, and every metrics field that is
  not a key of the cleaned update keeps its value.  The other sessions, the
  current-session pointer and the directive record are untouched.
\<close>

theorem updateMetrics_frame:
  assumes "sessions st sid = Some (SessionObj s)" and "session_id s = sid"
  shows "\<exists>st' r s'.
     updateMetrics lower st sid given ctx now now' = (st', Inr r)
     \<and> updatedMetrics r = cleanedMetrics lower given ctx
     \<and> sessions st' sid = Some (SessionObj s')
     \<and> s' = s\<lparr>session_metrics := session_metrics s', lastActivity := now\<rparr>
     \<and> session_id s' = session_id s
     \<and> userId s' = userId s
     \<and> phase s' = phase s
     \<and> consentTimestamp s' = consentTimestamp s
     \<and> memoryChain s' = memoryChain s
     \<and> coherenceTarget s' = coherenceTarget s
     \<and> spiralDepth s' = spiralDepth s
     \<and> teachingDirectives s' = teachingDirectives s
     \<and> (\<forall>k. k \<notin> fst ` set (updatedMetrics r) \<longrightarrow>
            map_of (session_metrics s') k = map_of (session_metrics s) k)
     \<and> (\<forall>k. k \<noteq> sid \<longrightarrow> sessions st' k = sessions st k)
     \<and> current_session st' = current_session st
     \<and> teaching_directives st' = teaching_directives st"
proof -
  let ?cleaned = "cleanedMetrics lower given ctx"
  let ?s' = "s\<lparr>session_metrics := spread (session_metrics s) ?cleaned, lastActivity := now\<rparr>"
  let ?st' = "storeSession st (SessionObj ?s')"
  let ?r = "\<lparr>success = True, updatedMetrics = ?cleaned, result_timestamp = now',
             coherenceScore = calculateOverallCoherence ?cleaned\<rparr>"
  have u: "updateMetrics lower st sid given ctx now now' = (?st', Inr ?r)"
    by (simp add: updateMetrics_stored [OF assms(1)] updatedSession_def metrics_of_def)
  have w: "sessions ?st' = (sessions st)(sid \<mapsto> SessionObj ?s')"
    using assms by (simp add: storeSession_def session_key_def js_set_def)
  have keep: "\<forall>k. k \<notin> fst ` set ?cleaned \<longrightarrow>
      map_of (session_metrics ?s') k = map_of (session_metrics s) k"
    by (simp add: map_of_spread_other)
  have rest: "current_session ?st' = current_session st"
    "teaching_directives ?st' = teaching_directives st"
    by (simp_all add: storeSession_def)
  show ?thesis
    apply (rule exI [of _ ?st'])
    apply (rule exI [of _ ?r])
    apply (rule exI [of _ ?s'])
    using u w keep rest by simp
qed

theorem updateMetrics_frame_witness:
  "sessions example_storage (js ''s1'') = Some (SessionObj example_session)
   \<and> session_id example_session = js ''s1''
   \<and> (\<exists>st' r s'.
         updateMetrics (\<lambda>u. u) example_storage (js ''s1'') [] None (js ''t1'') (js ''t2'')
           = (st', Inr r)
         \<and> sessions st' (js ''s1'') = Some (SessionObj s')
         \<and> memoryChain s' = memoryChain example_session
         \<and> consentTimestamp s' = Some (js ''t0'')
         \<and> spiralDepth s' = 1
         \<and> lastActivity s' = js ''t1''
         \<and> map_of (session_metrics s') (js ''emotionalDepth'') = Some (1 / 2)
         \<and> map_of (session_metrics s') (js ''spiralResonance'') = Some 1)"
proof -
  have id: "session_id example_session = js ''s1''"
    by (simp add: example_session_def newSession_def)
  obtain st' r s' where
    u: "updateMetrics (\<lambda>u. u) example_storage (js ''s1'') [] None (js ''t1'') (js ''t2'')
          = (st', Inr r)"
    and m: "updatedMetrics r = cleanedMetrics (\<lambda>u. u) [] None"
    and s: "sessions st' (js ''s1'') = Some (SessionObj s')"
    and e: "s' = example_session\<lparr>session_metrics := session_metrics s', lastActivity := js ''t1''\<rparr>"
    and k: "\<forall>k. k \<notin> fst ` set (updatedMetrics r) \<longrightarrow>
              map_of (session_metrics s') k = map_of (session_metrics example_session) k"
    using updateMetrics_frame [where lower = "\<lambda>u. u" and given = "[]" and ctx = None
        and now = "js ''t1''" and now' = "js ''t2''", OF example_storage_session id]
    by (elim exE conjE) (rule that, assumption+)
  have f: "memoryChain s' = memoryChain example_session"
    "consentTimestamp s' = Some (js ''t0'')" "spiralDepth s' = 1" "lastActivity s' = js ''t1''"
    by (subst e; simp add: example_session_def newSession_def)+
  have "js ''emotionalDepth'' \<notin> fst ` set (updatedMetrics r)"
    by (simp add: m cleanedMetrics_no_context js_def)
  with k have "map_of (session_metrics s') (js ''emotionalDepth'')
      = map_of (session_metrics example_session) (js ''emotionalDepth'')"
    by blast
  also have "\<dots> = Some (1 / 2)"
    by (simp add: example_session_def newSession_def initialMetrics_def js_def)
  finally have a: "map_of (session_metrics s') (js ''emotionalDepth'') = Some (1 / 2)" .
  have "st' = storeSession example_storage
      (SessionObj (example_session\<lparr>session_metrics :=
          spread initialMetrics (cleanedMetrics (\<lambda>u. u) [] None), lastActivity := js ''t1''\<rparr>))"
    using u
    by (simp add: updateMetrics_stored [OF example_storage_session]
        updatedSession_def metrics_of_def example_session_def newSession_def)
  then have "sessions st' (js ''s1'') = Some (SessionObj
      (example_session\<lparr>session_metrics :=
          spread initialMetrics (cleanedMetrics (\<lambda>u. u) [] None), lastActivity := js ''t1''\<rparr>))"
    by (simp add: storeSession_def session_key_def id js_set_def example_storage_def)
  with s have "s' = example_session\<lparr>session_metrics :=
          spread initialMetrics (cleanedMetrics (\<lambda>u. u) [] None), lastActivity := js ''t1''\<rparr>"
    by simp
  then have "session_metrics s' = spread initialMetrics (cleanedMetrics (\<lambda>u. u) [] None)"
    by (rule ssubst) simp
  then have "map_of (session_metrics s') (js ''spiralResonance'')
      = map_of (spread initialMetrics (cleanedMetrics (\<lambda>u. u) [] None)) (js ''spiralResonance'')"
    by simp
  also have "\<dots> = Some 1"
    unfolding cleanedMetrics_no_context spread_initialMetrics_no_context
    by (simp add: js_def)
  finally have b: "map_of (session_metrics s') (js ''spiralResonance'') = Some 1" .
  from u s f a b have "\<exists>st' r s'.
         updateMetrics (\<lambda>u. u) example_storage (js ''s1'') [] None (js ''t1'') (js ''t2'')
           = (st', Inr r)
         \<and> sessions st' (js ''s1'') = Some (SessionObj s')
         \<and> memoryChain s' = memoryChain example_session
         \<and> consentTimestamp s' = Some (js ''t0'')
         \<and> spiralDepth s' = 1
         \<and> lastActivity s' = js ''t1''
         \<and> map_of (session_metrics s') (js ''emotionalDepth'') = Some (1 / 2)
         \<and> map_of (session_metrics s') (js ''spiralResonance'') = Some 1"
    by (intro exI conjI)
  with example_storage_session id show ?thesis
    by (intro conjI)
qed

text \<open>
  The hypothesis of the frame theorem is an invariant: it holds in the empty storage and
  is kept by session creation and by metrics updates.
\<close>

lemma store_consistent_empty: "store_consistent empty_storage"
  by (simp add: store_consistent_def empty_storage_def)

lemma createSession_consistent:
  "store_consistent st \<Longrightarrow>
   store_consistent (fst (createSession st phrase_arg fingerprint rnd now seed))"
  by (auto simp: store_consistent_def createSession_def Let_def storeSession_def
      setCurrentSession_def session_key_def js_set_def newSession_def)

lemma updateMetrics_consistent:
  assumes "store_consistent st"
  shows "store_consistent (fst (updateMetrics lower st sid given ctx now now'))"
proof (cases "getSession st sid")
  case None
  with assms show ?thesis by (simp add: updateMetrics_def)
next
  case (Some found)
  show ?thesis
  proof (cases found)
    case Inherited
    with Some assms show ?thesis
      by (auto simp: updateMetrics_def Let_def updatedSession_def storeSession_def
          session_key_def js_set_def store_consistent_def)
  next
    case (Own v)
    with Some have sv: "sessions st sid = Some v"
      by (auto simp: getSession_def js_get_def split: option.splits if_splits)
    show ?thesis
    proof (cases v)
      case (SessionObj s)
      with sv assms have "session_id s = sid" by (simp add: store_consistent_def)
      with Some Own SessionObj assms show ?thesis
        by (auto simp: updateMetrics_def Let_def updatedSession_def storeSession_def
            session_key_def js_set_def store_consistent_def)
    next
      case (MetricsOnlyObj m t)
      with Some Own assms show ?thesis
        by (auto simp: updateMetrics_def Let_def updatedSession_def storeSession_def
            session_key_def js_set_def store_consistent_def)
    qed
  qed
qed

section \<open>Properties of the reflection engine\<close>

lemma pushDirectives_append:
  "pushDirectives lower clock xs depth (a @ b) =
     pushDirectives lower clock xs depth a @ pushDirectives lower clock xs depth b"
  by (induction a) (simp_all split: option.splits)

lemma pushDirectives_none:
  "\<forall>j \<in> set idx. directiveAt lower clock xs depth j = None \<Longrightarrow>
   pushDirectives lower clock xs depth idx = []"
  by (induction idx) simp_all

lemma directiveAt_surface_no_question:
  "63 \<notin> set (userInput (xs ! j)) \<Longrightarrow> directiveAt lower clock xs surface j = None"
  by (simp add: directiveAt_def Let_def)

lemma directiveAt_surface_question:
  "63 \<in> set (userInput (xs ! i)) \<Longrightarrow>
   directiveAt lower clock xs surface i =
     Some \<lparr>directive_id = js ''surface_'' @ Number_toString i @ js ''_'' @ Int_toString (clock i),
           directive_type = pattern,
           directive_content =
             js ''User seeks clarification: '' @ [34] @ take 100 (userInput (xs ! i))
             @ js ''...'' @ [34],
           confidence = 0.7,
           sourceInteractions = [Number_toString i],
           emergentProperties = \<lparr>resonance = 0.6, coherence = 0.8, applicability = 0.9\<rparr>,
           goldenRatioAlignment = \<bar>sin (real i * GOLDEN_RATIO)\<bar>\<rparr>"
  by (simp add: directiveAt_def Let_def)

lemma extract_surface_single:
  assumes i: "i < length xs"
    and q: "63 \<in> set (userInput (xs ! i))"
    and o: "\<forall>j < length xs. j \<noteq> i \<longrightarrow> 63 \<notin> set (userInput (xs ! j))"
  shows "extractTeachingDirectives lower clock xs surface =
           [the (directiveAt lower clock xs surface i)]"
proof -
  have split: "[0..<length xs] = [0..<i] @ [i] @ [Suc i..<length xs]"
    using i by (metis append_Cons append_Nil le_add2 le_add_same_cancel2 less_imp_add_positive
        upt_add_eq_append upt_conv_Cons)
  have before: "pushDirectives lower clock xs surface [0..<i] = []"
    using i o by (intro pushDirectives_none ballI directiveAt_surface_no_question) auto
  have after: "pushDirectives lower clock xs surface [Suc i..<length xs] = []"
    using o by (intro pushDirectives_none ballI directiveAt_surface_no_question) auto
  obtain d where d: "directiveAt lower clock xs surface i = Some d"
    using directiveAt_surface_question [OF q] by blast
  have "pushDirectives lower clock xs surface [0..<length xs] = [d]"
    by (simp only: split pushDirectives_append before after) (simp add: d)
  then show ?thesis
    by (simp add: extractTeachingDirectives_def d)
qed

text \<open>
  Claim C8.  When exactly one interaction of the batch, the one at index \<open>i\<close>, has a
  question mark in its \<open>userInput\<close>, \<open>scaffoldReflection\<close> at \<open>surface\<close> depth returns
  exactly one teaching directive; it has type \<open>pattern\<close>, confidence \<open>0.7\<close>, emergent
  properties \<open>{resonance: 0.6, coherence: 0.8, applicability: 0.9}\<close>, and its
  \<open>sourceInteractions\<close> is the one-element list holding \<open>i\<close> (as the decimal string that
  \<open>i.toString()\<close> yields).
\<close>

theorem surface_single_question:
  assumes "i < length xs"
    and "63 \<in> set (userInput (xs ! i))"
    and "\<forall>j < length xs. j \<noteq> i \<longrightarrow> 63 \<notin> set (userInput (xs ! j))"
  shows "\<exists>st' r d.
     scaffoldReflection lower clock stamp st sid xs (Some surface) = (st', Inr r)
     \<and> scaffold_teachingDirectives r = [d]
     \<and> directive_type d = pattern
     \<and> confidence d = 7 / 10
     \<and> emergentProperties d = \<lparr>resonance = 6 / 10, coherence = 8 / 10, applicability = 9 / 10\<rparr>
     \<and> sourceInteractions d = [Number_toString i]
     \<and> goldenRatioAlignment d = \<bar>sin (real i * GOLDEN_RATIO)\<bar>"
  by (simp add: scaffoldReflection_def Let_def extract_surface_single [OF assms]
      directiveAt_surface_question [OF assms(2)])

theorem surface_single_question_witness:
  "1 < length example_batch
   \<and> 63 \<in> set (userInput (example_batch ! 1))
   \<and> (\<exists>st' r d.
        scaffoldReflection (\<lambda>u. u) (\<lambda>i. 0) 0 empty_storage (js ''s1'') example_batch (Some surface)
          = (st', Inr r)
        \<and> scaffold_teachingDirectives r = [d]
        \<and> directive_type d = pattern
        \<and> confidence d = 7 / 10
        \<and> sourceInteractions d = [js ''1''])"
proof -
  have a: "1 < length example_batch"
    by (simp add: example_batch_def)
  have b: "63 \<in> set (userInput (example_batch ! 1))"
    by (simp add: example_batch_def js_def)
  have c: "\<forall>j < length example_batch. j \<noteq> 1 \<longrightarrow> 63 \<notin> set (userInput (example_batch ! j))"
    by (auto simp: example_batch_def js_def less_Suc_eq)
  have n: "Number_toString 1 = js ''1''"
    by (simp add: Number_toString.simps js_def)
  from surface_single_question [where lower = "\<lambda>u. u" and clock = "\<lambda>i. 0" and stamp = 0
      and st = empty_storage and sid = "js ''s1''", OF a b c]
  have "\<exists>st' r d.
        scaffoldReflection (\<lambda>u. u) (\<lambda>i. 0) 0 empty_storage (js ''s1'') example_batch (Some surface)
          = (st', Inr r)
        \<and> scaffold_teachingDirectives r = [d]
        \<and> directive_type d = pattern
        \<and> confidence d = 7 / 10
        \<and> sourceInteractions d = [js ''1'']"
    unfolding n by (elim exE conjE) (intro exI conjI; assumption)
  with a b show ?thesis by (intro conjI)
qed

text \<open>
  Claim C4, amended.  At \<open>deep\<close> depth on the empty batch, \<open>scaffoldReflection\<close> returns
  no teaching directive and a \<open>learningVelocity\<close> of \<open>0\<close>, and its \<open>conversationalFlow\<close>
  is \<open>1\<close>: the sum of the gaps is \<open>0\<close>, it is divided by \<open>Math.max(-1, 1) = 1\<close>, and
  \<open>Math.max(0, 1 - 0 / 10000)\<close> is \<open>1\<close>.
\<close>

theorem scaffoldReflection_empty_deep:
  "\<exists>st' r.
     scaffoldReflection lower clock stamp st sid [] (Some deep) = (st', Inr r)
     \<and> scaffold_teachingDirectives r = []
     \<and> learningVelocity (emergentPatterns r) = 0
     \<and> conversationalFlow (emergentPatterns r) = 1"
  by (simp add: scaffoldReflection_def Let_def extractTeachingDirectives_def
      calculateEmergentPatterns_def)

theorem scaffoldReflection_empty_deep_witness:
  "\<exists>st' r.
     scaffoldReflection (\<lambda>u. u) (\<lambda>i. 0) 0 empty_storage (js ''s1'') [] (Some deep) = (st', Inr r)
     \<and> scaffold_teachingDirectives r = []
     \<and> learningVelocity (emergentPatterns r) = 0
     \<and> conversationalFlow (emergentPatterns r) = 1"
  by (rule scaffoldReflection_empty_deep)

text \<open>
  Claim C4 as stated asks for \<open>conversationalFlow = 0\<close> on the empty batch; the value is
  \<open>1\<close>, so the three equations of the claim do not hold together.
\<close>

theorem scaffoldReflection_empty_deep_flow_not_zero:
  "\<not> (scaffold_teachingDirectives
          (returned (scaffoldReflection (\<lambda>u. u) (\<lambda>i. 0) 0 empty_storage (js ''s1'') [] (Some deep))) = []
      \<and> learningVelocity (emergentPatterns
          (returned (scaffoldReflection (\<lambda>u. u) (\<lambda>i. 0) 0 empty_storage (js ''s1'') [] (Some deep)))) = 0
      \<and> conversationalFlow (emergentPatterns
          (returned (scaffoldReflection (\<lambda>u. u) (\<lambda>i. 0) 0 empty_storage (js ''s1'') [] (Some deep)))) = 0)"
  by (simp add: returned_def scaffoldReflection_def Let_def extractTeachingDirectives_def
      calculateEmergentPatterns_def)

text \<open>
  What \<open>calculateEmergentPatterns\<close> computes for a batch of two or more interactions: the
  loads of the first and the last interaction enter through \<open>cognitiveLoad || 0.5\<close>.
\<close>

lemma learningVelocity_code:
  assumes "2 \<le> length xs"
  shows "learningVelocity (calculateEmergentPatterns xs ds) =
           max 0 (load_or_half (cognitiveLoad (hd xs)) - load_or_half (cognitiveLoad (last xs)))"
proof -
  let ?f = "\<lambda>int. load_or_half (cognitiveLoad int)"
  from assms have ne: "xs \<noteq> []" by auto
  then have "map ?f xs ! 0 = ?f (hd xs)"
    by (simp add: hd_conv_nth)
  moreover from ne have "map ?f xs ! (length xs - 1) = ?f (last xs)"
    by (simp add: last_conv_nth)
  ultimately show ?thesis
    using assms by (simp add: calculateEmergentPatterns_def Let_def)
qed

text \<open>
  Claim C5 at the batch whose first interaction has \<open>cognitiveLoad = 1\<close> and whose last
  has \<open>cognitiveLoad = 0\<close>.  The claim gives \<open>max(0, 1 - 0) = 1\<close>; the code reads the
  supplied \<open>0\<close> as \<open>0.5\<close> and returns \<open>0.5\<close>.
\<close>

theorem learningVelocity_zero_load:
  "learningVelocity (emergentPatterns
      (returned (scaffoldReflection lower clock stamp st sid example_batch depth))) = 1 / 2"
proof -
  have "learningVelocity (calculateEmergentPatterns example_batch ds) = 1 / 2" for ds
    by (simp add: calculateEmergentPatterns_def Let_def example_batch_def load_or_half_def
        or_number_def)
  then show ?thesis
    by (simp add: returned_def scaffoldReflection_def Let_def)
qed

text \<open>
  \<open>scaffoldReflection\<close> reads no session and has no error path: for every session id it
  returns a scaffold carrying that id.  For every id but \<open>"__proto__"\<close> (and for that one
  too when the directive record already has it as an own property) the directive list
  of the scaffold replaces whatever was stored under the id; the sessions and the
  current-session pointer are untouched.
\<close>

lemma scaffoldReflection_returns:
  "\<exists>r. scaffoldReflection lower clock stamp st sid xs depth =
          (storeTeachingDirectives st sid (scaffold_teachingDirectives r), Inr r)
        \<and> scaffold_sessionId r = sid"
  by (simp add: scaffoldReflection_def Let_def)

lemma scaffoldReflection_overwrites:
  assumes "sid \<noteq> js ''__proto__'' \<or> teaching_directives st sid \<noteq> None"
  shows "\<exists>st' r. scaffoldReflection lower clock stamp st sid xs depth = (st', Inr r)
           \<and> teaching_directives st' = (teaching_directives st)(sid \<mapsto> scaffold_teachingDirectives r)
           \<and> sessions st' = sessions st \<and> current_session st' = current_session st"
  using assms
  by (auto simp: scaffoldReflection_def Let_def storeTeachingDirectives_def js_set_def)

text \<open>
  Claim C10 at the session id \<open>"__proto__"\<close>, on the empty storage.  A scaffold is
  returned and no error is raised, but \<open>allDirectives["__proto__"] = directives\<close> sets the
  prototype of the temporary object instead of a property, and the directive record
  is written back without an entry for the id.
\<close>

theorem scaffoldReflection_proto_not_stored:
  "(\<exists>r. scaffoldReflection lower clock stamp empty_storage (js ''__proto__'') xs depth
          = (empty_storage, Inr r))
   \<and> teaching_directives
        (fst (scaffoldReflection lower clock stamp empty_storage (js ''__proto__'') xs depth))
        (js ''__proto__'') = None"
  by (simp add: scaffoldReflection_def Let_def storeTeachingDirectives_def js_set_def
      empty_storage_def)

end
